theory Spec2Isabelle
  imports Complex_Main "HOL-Library.Word" "HOL-Library.Multiset"
begin

unbundle bit_operations_syntax

section \<open>Data model\<close>

text \<open>
  The flight-price analysis service (\<^verbatim>\<open>flightAnalysisService.ts\<close>) works on rows of the
  \<^verbatim>\<open>flight_prices\<close> table. JavaScript numbers are modelled by exact rationals: every
  property below is about the arithmetic the code writes down, not about the rounding of
  IEEE doubles. \<^verbatim>\<open>Math.round x\<close> is \<open>\<lfloor>x + 1/2\<rfloor>\<close>, which is \<^const>\<open>round\<close>.

  The code rounds every sum, product and quotient to a double, so an average or a score
  it computes can differ from the exact one in the last places: three rows priced 1000.01
  average to 1000.0099999999999, and 66.66666666666666 * 0.6 + 0 * 0.3 + 0 * 0.1 gives
  39.99999999999999 where the exact score is 40. Two values that are equal in exact
  arithmetic may therefore be unequal in the code, and the reverse. The statements about
  thresholds and classes below take the scores as they are given and only compare them,
  which doubles do exactly; the concrete rows used below are chosen so that every sum,
  product and quotient formed from them is exact in doubles, or so that the classes do
  not depend on the last places.

  A \<^verbatim>\<open>Date\<close> holding a UTC midnight is modelled by its calendar fields; \<open>utc_month\<close> is
  \<^verbatim>\<open>getUTCMonth() + 1\<close>, in 1..12. Formatting in local time (\<^verbatim>\<open>format\<close> of date-fns) is
  taken to show the same calendar date. Prices are numbers; \<^verbatim>\<open>NaN\<close> is outside the model.
\<close>

datatype season = Low | Normal | High

datatype trip_type = OneWay | RoundTrip

record utc_date =
  utc_year :: int
  utc_month :: nat
  utc_day :: nat

text \<open>\<^verbatim>\<open>format(date, 'yyyy-MM')\<close>: the period of a date, as the pair (year, month).\<close>

type_synonym period = "int \<times> nat"

definition period_of :: "utc_date \<Rightarrow> period" where
  "period_of d = (utc_year d, utc_month d)"

record flight_price =
  departure_date :: utc_date
  price :: rat
  trip_type :: trip_type
  season :: season
  airline_name_th :: string
  airline_name :: string

record passengers =
  adults :: nat
  children :: nat
  infants :: nat

text \<open>
  \<^verbatim>\<open>SeasonData\<close>. The source renders \<open>months\<close> through \<^verbatim>\<open>getThaiMonthName\<close> (a fixed table of
  the twelve Thai month names) and \<open>dates\<close> through \<^verbatim>\<open>formatThaiDate\<close>
  (\<^verbatim>\<open>"D <Thai month name> YYYY"\<close>); the model keeps the month numbers and the date that is
  rendered, and \<open>NoDates\<close> stands for the empty string. The \<open>description\<close> field, a fixed
  text per entry, is left out.
\<close>

datatype dates_label = NoDates | ThaiDate utc_date

record price_range =
  range_min :: rat
  range_max :: rat

record best_deal =
  dates :: dates_label
  deal_price :: rat
  airline :: string

record season_data =
  season_type :: season
  months :: "nat list"
  priceRange :: price_range
  bestDeal :: best_deal

section \<open>Empty seasons\<close>

definition empty_season :: "season \<Rightarrow> season_data" where
  "empty_season s =
     \<lparr> season_type = s, months = [],
       priceRange = \<lparr> range_min = 0, range_max = 0 \<rparr>,
       bestDeal = \<lparr> dates = NoDates, deal_price = 0, airline = [] \<rparr> \<rparr>"

definition getEmptySeasons :: "season_data list" where
  "getEmptySeasons = [empty_season Low, empty_season Normal, empty_season High]"

section \<open>Season classification\<close>

text \<open>
  \<^verbatim>\<open>calculateSeasonsFromFlightPricesWithDemand\<close>. A \<^verbatim>\<open>Record<number, T>\<close> keyed by month
  is a map; \<^verbatim>\<open>Object.keys\<close> enumerates integer keys in ascending order, and the keys here
  are month numbers \<^verbatim>\<open>getUTCMonth() + 1\<close>, so they lie in 1..12.
\<close>

definition object_keys :: "(nat \<rightharpoonup> 'a) \<Rightarrow> nat list" where
  "object_keys m = filter (\<lambda>k. m k \<noteq> None) [1..<13]"

definition object_values :: "(nat \<rightharpoonup> 'a) \<Rightarrow> 'a list" where
  "object_values m = map (\<lambda>k. the (m k)) (object_keys m)"

text \<open>
  \<^verbatim>\<open>keys.forEach(k => { ... rec[k] = v ... })\<close> into a fresh record, where the body may
  also assign nothing (\<open>None\<close>).
\<close>

definition assign_each :: "nat list \<Rightarrow> (nat \<Rightarrow> 'a option) \<Rightarrow> (nat \<rightharpoonup> 'a)" where
  "assign_each ks body =
     fold (\<lambda>k rec. case body k of None \<Rightarrow> rec | Some v \<Rightarrow> rec(k \<mapsto> v)) ks Map.empty"

definition month_of :: "flight_price \<Rightarrow> nat" where
  "month_of fp = utc_month (departure_date fp)"

text \<open>
  The grouping loop: the first row of a month creates its price list and fixes its period;
  only prices above zero are pushed.
\<close>

definition group_step ::
  "flight_price \<Rightarrow> (nat \<rightharpoonup> rat list) \<times> (nat \<rightharpoonup> period)
     \<Rightarrow> (nat \<rightharpoonup> rat list) \<times> (nat \<rightharpoonup> period)" where
  "group_step fp acc =
     (let month = month_of fp;
          period = period_of (departure_date fp);
          monthPrices = (if fst acc month = None then (fst acc)(month \<mapsto> []) else fst acc);
          monthPeriods = (if fst acc month = None then (snd acc)(month \<mapsto> period) else snd acc)
      in if price fp > 0
         then (monthPrices(month \<mapsto> the (monthPrices month) @ [price fp]), monthPeriods)
         else (monthPrices, monthPeriods))"

definition groupByMonth ::
  "flight_price list \<Rightarrow> (nat \<rightharpoonup> rat list) \<times> (nat \<rightharpoonup> period)" where
  "groupByMonth flightPrices = fold group_step flightPrices (Map.empty, Map.empty)"

text \<open>
  The monthly averages, the fallback percentile and the weighted score, in exact
  arithmetic; the code forms them in doubles (see the note on numbers above).
\<close>

definition monthAvgPrices :: "(nat \<rightharpoonup> rat list) \<Rightarrow> (nat \<rightharpoonup> rat)" where
  "monthAvgPrices monthPrices =
     assign_each (object_keys monthPrices) (\<lambda>month.
       let prices = the (monthPrices month) in
       if prices \<noteq> []
       then (let validPrices = filter (\<lambda>p. p > 0) prices in
             if validPrices \<noteq> []
             then Some (sum_list validPrices / of_nat (length validPrices))
             else None)
       else None)"

definition fallbackPercentile :: "rat list \<Rightarrow> rat \<Rightarrow> rat" where
  "fallbackPercentile sortedPrices avgPrice =
     (of_nat (length (filter (\<lambda>p. p \<le> avgPrice) sortedPrices))
        / of_nat (length sortedPrices)) * 100"

definition seasonScore :: "rat \<Rightarrow> rat \<Rightarrow> rat \<Rightarrow> rat" where
  "seasonScore pricePercentile holidayScore weatherScore =
     (pricePercentile * (6 / 10)) + (holidayScore * (3 / 10)) + (weatherScore * (1 / 10))"

text \<open>
  The score loop. \<open>pricePercentileMap\<close> is what the lookup in
  \<^verbatim>\<open>route_price_statistics\<close> returned (empty when the route is unknown); \<open>weatherData\<close>
  and \<open>holidayData\<close> are the caller's maps; \<^verbatim>\<open>?? 50\<close> is the default.
\<close>

definition monthSeasonScores ::
  "(nat \<rightharpoonup> rat) \<Rightarrow> (nat \<rightharpoonup> period) \<Rightarrow> (period \<rightharpoonup> rat) \<Rightarrow> (period \<rightharpoonup> rat)
     \<Rightarrow> (period \<rightharpoonup> rat) \<Rightarrow> (nat \<rightharpoonup> rat)" where
  "monthSeasonScores avgPrices monthPeriods pricePercentileMap weatherData holidayData =
     (let sortedPrices = sort (object_values avgPrices) in
      assign_each (object_keys avgPrices) (\<lambda>month.
        let avgPrice = the (avgPrices month);
            period = the (monthPeriods month);
            pricePercentile =
              (case pricePercentileMap period of
                 Some pp \<Rightarrow> pp
               | None \<Rightarrow> fallbackPercentile sortedPrices avgPrice);
            weatherScore = (case weatherData period of Some w \<Rightarrow> w | None \<Rightarrow> 50);
            holidayScore = (case holidayData period of Some h \<Rightarrow> h | None \<Rightarrow> 50)
        in Some (seasonScore pricePercentile holidayScore weatherScore)))"

text \<open>
  \<^verbatim>\<open>percentile(sortedArr, p)\<close>. An index past the end reads \<^verbatim>\<open>undefined\<close> in JavaScript
  (\<open>None\<close>), and a comparison with \<^verbatim>\<open>undefined\<close> is false. The list holds at most twelve
  scores, one per month key; for these lengths and \<open>p = 33\<close> or \<open>67\<close> the product computed
  in doubles has the same ceiling as the exact one.
\<close>

definition percentile :: "rat list \<Rightarrow> rat \<Rightarrow> rat option" where
  "percentile sortedArr p =
     (if length sortedArr = 0 then Some 0
      else (let index = \<lceil>(p / 100) * of_nat (length sortedArr)\<rceil> - 1;
                i = nat (max 0 index)
            in if i < length sortedArr then Some (sortedArr ! i) else None))"

definition classify :: "rat \<Rightarrow> rat option \<Rightarrow> rat option \<Rightarrow> season" where
  "classify score scoreLowThreshold scoreHighThreshold =
     (if (case scoreLowThreshold of Some t \<Rightarrow> score \<le> t | None \<Rightarrow> False) then Low
      else if (case scoreHighThreshold of Some t \<Rightarrow> score \<ge> t | None \<Rightarrow> False) then High
      else Normal)"

definition monthSeasonMap :: "(nat \<rightharpoonup> rat) \<Rightarrow> (nat \<rightharpoonup> season)" where
  "monthSeasonMap scores =
     (let allScores = sort (object_values scores);
          scoreLowThreshold = percentile allScores 33;
          scoreHighThreshold = percentile allScores 67
      in assign_each (object_keys scores) (\<lambda>month.
           Some (classify (the (scores month)) scoreLowThreshold scoreHighThreshold)))"

text \<open>\<^verbatim>\<open>monthSeasonMap[i] || 'normal'\<close>\<close>

definition season_or_normal :: "(nat \<rightharpoonup> season) \<Rightarrow> nat \<Rightarrow> season" where
  "season_or_normal msm i = (case msm i of Some s \<Rightarrow> s | None \<Rightarrow> Normal)"

definition seasonMonths :: "(nat \<rightharpoonup> season) \<Rightarrow> season \<Rightarrow> nat list" where
  "seasonMonths msm s = sort (filter (\<lambda>i. season_or_normal msm i = s) [1..<13])"

definition seasonPrices :: "flight_price list \<Rightarrow> (nat \<rightharpoonup> season) \<Rightarrow> season \<Rightarrow> rat list" where
  "seasonPrices flightPrices msm s =
     map price (filter (\<lambda>fp. season_or_normal msm (month_of fp) = s) flightPrices)"

definition getPriceRangeForSeason ::
  "flight_price list \<Rightarrow> (nat \<rightharpoonup> season) \<Rightarrow> season \<Rightarrow> price_range" where
  "getPriceRangeForSeason flightPrices msm seasonType =
     (let prices = seasonPrices flightPrices msm seasonType in
      if prices \<noteq> []
      then \<lparr> range_min = Min (set prices), range_max = Max (set prices) \<rparr>
      else (let filteredFlights = filter (\<lambda>fp. msm (month_of fp) = Some seasonType) flightPrices in
            if filteredFlights \<noteq> []
            then \<lparr> range_min = Min (set (map price filteredFlights)),
                   range_max = Max (set (map price filteredFlights)) \<rparr>
            else \<lparr> range_min = 0, range_max = 0 \<rparr>))"

definition findBestDealByMonthSeason ::
  "flight_price list \<Rightarrow> (nat \<rightharpoonup> season) \<Rightarrow> season \<Rightarrow> best_deal" where
  "findBestDealByMonthSeason flightPrices msm targetSeason =
     (let filteredFlights = filter (\<lambda>fp. msm (month_of fp) = Some targetSeason) flightPrices in
      if filteredFlights \<noteq> []
      then (let cheapest = foldl (\<lambda>m fp. if price fp < price m then fp else m)
                             (hd filteredFlights) (tl filteredFlights)
            in \<lparr> dates = ThaiDate (departure_date cheapest),
                 deal_price = price cheapest,
                 airline = (if airline_name_th cheapest \<noteq> [] then airline_name_th cheapest
                            else airline_name cheapest) \<rparr>)
      else \<lparr> dates = NoDates, deal_price = 0, airline = [] \<rparr>)"

definition build_season ::
  "flight_price list \<Rightarrow> (nat \<rightharpoonup> season) \<Rightarrow> season \<Rightarrow> season_data" where
  "build_season flightPrices msm s =
     \<lparr> season_type = s,
       months = seasonMonths msm s,
       priceRange = getPriceRangeForSeason flightPrices msm s,
       bestDeal = findBestDealByMonthSeason flightPrices msm s \<rparr>"

text \<open>The season scores and the month-to-season map the function computes on the way.\<close>

definition scores_of ::
  "flight_price list \<Rightarrow> (period \<rightharpoonup> rat) \<Rightarrow> (period \<rightharpoonup> rat) \<Rightarrow> (period \<rightharpoonup> rat)
     \<Rightarrow> (nat \<rightharpoonup> rat)" where
  "scores_of flightPrices pricePercentileMap weatherData holidayData =
     monthSeasonScores (monthAvgPrices (fst (groupByMonth flightPrices)))
       (snd (groupByMonth flightPrices)) pricePercentileMap weatherData holidayData"

definition calculateSeasonsFromFlightPricesWithDemand ::
  "flight_price list \<Rightarrow> (period \<rightharpoonup> rat) \<Rightarrow> (period \<rightharpoonup> rat) \<Rightarrow> (period \<rightharpoonup> rat)
     \<Rightarrow> season_data list" where
  "calculateSeasonsFromFlightPricesWithDemand flightPrices pricePercentileMap weatherData holidayData =
     (if length flightPrices = 0 then getEmptySeasons
      else if length (object_values (monthAvgPrices (fst (groupByMonth flightPrices)))) = 0
      then getEmptySeasons
      else (let msm = monthSeasonMap
                        (scores_of flightPrices pricePercentileMap weatherData holidayData)
            in [build_season flightPrices msm Low,
                build_season flightPrices msm Normal,
                build_season flightPrices msm High]))"

section \<open>Deterministic pseudo-random numbers\<close>

text \<open>
  \<^verbatim>\<open>deterministicRandom(seed)\<close>. The seed is the list of its UTF-16 code units
  (\<^verbatim>\<open>charCodeAt\<close>). \<^verbatim>\<open>hash << 5\<close> and \<^verbatim>\<open>hash & hash\<close> convert their result to a signed
  32-bit integer (\<open>toInt32\<close>); the subtraction and the addition in between are exact.
\<close>

definition toInt32 :: "int \<Rightarrow> int" where
  "toInt32 x = (x + 2 ^ 31) mod 2 ^ 32 - 2 ^ 31"

definition hash_step :: "int \<Rightarrow> nat \<Rightarrow> int" where
  "hash_step hash char = toInt32 ((toInt32 (hash * 2 ^ 5) - hash) + int char)"

definition seed_hash :: "nat list \<Rightarrow> int" where
  "seed_hash seed = foldl hash_step 0 seed"

definition deterministicRandom :: "nat list \<Rightarrow> rat" where
  "deterministicRandom seed = of_int (\<bar>seed_hash seed\<bar> mod 1000000) / 1000000"

definition charCodes :: "string \<Rightarrow> nat list" where
  "charCodes s = map of_char s"

text \<open>
  The specification's reading of the same hash: a 32-bit word updated by
  \<open>h := (h << 5) - h + c\<close> with wrap-around.
\<close>

definition rolling_hash32 :: "nat list \<Rightarrow> 32 word" where
  "rolling_hash32 seed = foldl (\<lambda>h c. (push_bit 5 h - h) + of_nat c) 0 seed"

section \<open>Pricing rules and the response of the analysis\<close>

text \<open>
  \<^verbatim>\<open>calculatePriceWithDiscounts\<close> and the places of \<^verbatim>\<open>analyzeFlightPrices\<close> that emit prices.
  The request's \<open>tripType\<close> may be absent (\<open>None\<close>): the queries then use
  \<^verbatim>\<open>tripType || 'round-trip'\<close>, and the test \<^verbatim>\<open>tripType === 'one-way'\<close> is false.
\<close>

definition calculatePriceWithDiscounts :: "rat \<Rightarrow> passengers \<Rightarrow> rat" where
  "calculatePriceWithDiscounts p pax =
     (let adultPrice = p * of_nat (adults pax);
          childPrice = p * of_nat (children pax) * (3 / 4);
          infantPrice = p * of_nat (infants pax) * (1 / 10)
      in adultPrice + childPrice + infantPrice)"

definition one_way_factor :: "trip_type option \<Rightarrow> rat" where
  "one_way_factor tripType = (if tripType = Some OneWay then 1 / 2 else 1)"

definition trip_or_round :: "trip_type option \<Rightarrow> trip_type" where
  "trip_or_round tripType = (case tripType of Some t \<Rightarrow> t | None \<Rightarrow> RoundTrip)"

text \<open>\<^verbatim>\<open>recommendedPeriod.price\<close>, from the best deal's stored price.\<close>

definition recommendedPeriod_price :: "trip_type option \<Rightarrow> passengers \<Rightarrow> rat \<Rightarrow> int" where
  "recommendedPeriod_price tripType pax recommendedPrice =
     (let adjustedRecommendedPrice = calculatePriceWithDiscounts recommendedPrice pax
      in round (adjustedRecommendedPrice * one_way_factor tripType))"



text \<open>
  \<^verbatim>\<open>getPriceForDate\<close>: the cheapest row of that exact date and trip type, 0 when there is
  none.
\<close>

definition getPriceForDate :: "flight_price list \<Rightarrow> utc_date \<Rightarrow> trip_type \<Rightarrow> rat" where
  "getPriceForDate flightPrices d tripType =
     (if length flightPrices = 0 then 0
      else (let matchingFlights =
                  filter (\<lambda>fp. departure_date fp = d \<and> trip_type fp = tripType) flightPrices
            in if length matchingFlights = 0 then 0
               else price (foldl (\<lambda>best current. if price current < price best then current else best)
                             (hd matchingFlights) (tl matchingFlights))))"

text \<open>
  The savings of \<^verbatim>\<open>analyzeFlightPrices\<close>, and the value placed in
  \<^verbatim>\<open>recommendedPeriod.savings\<close>.
\<close>

definition calculateSavings ::
  "flight_price list \<Rightarrow> utc_date option \<Rightarrow> trip_type option \<Rightarrow> season_data list \<Rightarrow> rat \<Rightarrow> rat" where
  "calculateSavings flightPrices userSelectedDate tripType seasons adjustedRecommendedPrice =
     (case userSelectedDate of
        Some d \<Rightarrow>
          (let userSelectedPrice = getPriceForDate flightPrices d (trip_or_round tripType)
           in if userSelectedPrice > 0 \<and> adjustedRecommendedPrice > 0
                 \<and> userSelectedPrice > adjustedRecommendedPrice
              then userSelectedPrice - adjustedRecommendedPrice
              else 0)
      | None \<Rightarrow>
          (let highSeasonPrice =
                 (case find (\<lambda>s. season_type s = High) seasons of
                    Some s \<Rightarrow> deal_price (bestDeal s)
                  | None \<Rightarrow> 0)
           in if highSeasonPrice > 0 \<and> adjustedRecommendedPrice > 0
                 \<and> highSeasonPrice > adjustedRecommendedPrice
              then highSeasonPrice - adjustedRecommendedPrice
              else 0))"

definition recommendedPeriod_savings ::
  "flight_price list \<Rightarrow> utc_date option \<Rightarrow> trip_type option \<Rightarrow> passengers
     \<Rightarrow> season_data list \<Rightarrow> rat \<Rightarrow> int" where
  "recommendedPeriod_savings flightPrices userSelectedDate tripType pax seasons recommendedPrice =
     (let adjustedRecommendedPrice = calculatePriceWithDiscounts recommendedPrice pax;
          savings = calculateSavings flightPrices userSelectedDate tripType seasons
                      adjustedRecommendedPrice
      in round (savings * one_way_factor tripType))"

text \<open>
  \<^verbatim>\<open>priceComparison.basePrice\<close> of \<^verbatim>\<open>calculatePriceComparison\<close>: the price of the anchor
  date as that function displays it (\<open>None\<close> when it is not above zero).
\<close>

definition comparison_basePrice ::
  "flight_price list \<Rightarrow> utc_date \<Rightarrow> trip_type \<Rightarrow> passengers \<Rightarrow> int option" where
  "comparison_basePrice flightPrices baseStartDate tripType pax =
     (let basePrice = getPriceForDate flightPrices baseStartDate tripType;
          safeBasePrice = round (calculatePriceWithDiscounts basePrice pax)
      in if safeBasePrice > 0 then Some safeBasePrice else None)"

section \<open>Chart data\<close>

text \<open>
  Calendar arithmetic for \<^verbatim>\<open>Date.UTC(year, month + 1, 0)\<close> (the last day of a month) and
  for \<^verbatim>\<open>addDays\<close>.
\<close>

definition is_leap :: "int \<Rightarrow> bool" where
  "is_leap y = ((y mod 4 = 0 \<and> y mod 100 \<noteq> 0) \<or> y mod 400 = 0)"

definition days_in_month :: "int \<Rightarrow> nat \<Rightarrow> nat" where
  "days_in_month y m =
     (if m = 2 then (if is_leap y then 29 else 28)
      else if m = 4 \<or> m = 6 \<or> m = 9 \<or> m = 11 then 30
      else 31)"









section \<open>Daily weather store\<close>

text \<open>
  The table \<^verbatim>\<open>daily_weather_data\<close> of migration 009 and
  \<^verbatim>\<open>DailyWeatherDataModel.upsertDailyWeatherData\<close>. The source \<^verbatim>\<open>'open-meteo'\<close> is the
  historical one, \<^verbatim>\<open>'openweathermap'\<close> the forecast.

  The columns have types, and a value that does not fit makes the statement fail:
  \<^item> \<^verbatim>\<open>VARCHAR(n)\<close> takes a text of at most \<open>n\<close> characters; a longer one is cut to \<open>n\<close>
    when all the characters beyond are spaces and is an error otherwise;
  \<^item> \<^verbatim>\<open>DATE\<close> takes the text through the date input function of the database, which
    is not part of the repository and is a parameter here (\<open>None\<close> for a text it refuses);
  \<^item> \<^verbatim>\<open>DECIMAL(p, 2)\<close> rounds to two decimals, halves away from zero, and the rounded
    value must be below \<open>10^(p - 2)\<close> in absolute value;
  \<^item> \<^verbatim>\<open>INTEGER\<close> is a signed 32-bit integer;
  \<^item> the \<^verbatim>\<open>CHECK\<close>s ask for a month in 1..12 and a day in 1..31.
  The kind of error is not distinguished.
\<close>

datatype weather_source = OpenMeteo | OpenWeatherMap

datatype db_error = StatementRejected

record weather_params =
  p_province :: string
  p_date :: string
  tempMax :: rat
  tempMin :: rat
  tempAvg :: rat
  p_precipitation :: rat
  p_humidity :: "rat option"
  p_source :: weather_source
  p_year :: int
  p_month :: int
  p_day :: int

record weather_row =
  row_id :: nat
  row_province :: string
  row_date :: utc_date
  temp_max :: rat
  temp_min :: rat
  temp_avg :: rat
  row_precipitation :: rat
  row_humidity :: "rat option"
  row_source :: weather_source
  row_year :: int
  row_month :: int
  row_day :: int
  created_at :: nat
  updated_at :: nat

text \<open>The table: the rows by their unique key, the stored province and the stored date.\<close>

type_synonym weather_table = "string \<times> utc_date \<rightharpoonup> weather_row"

definition varchar_column :: "nat \<Rightarrow> string \<Rightarrow> string option" where
  "varchar_column n s =
     (if length s \<le> n then Some s
      else if list_all (\<lambda>c. c = CHR '' '') (drop n s) then Some (take n s)
      else None)"

definition numeric_scale2 :: "rat \<Rightarrow> rat" where
  "numeric_scale2 x =
     (if x \<ge> 0 then of_int \<lfloor>x * 100 + 1 / 2\<rfloor> / 100
      else - (of_int \<lfloor>- x * 100 + 1 / 2\<rfloor> / 100))"

definition decimal_column :: "nat \<Rightarrow> rat \<Rightarrow> rat option" where
  "decimal_column p x =
     (let r = numeric_scale2 x in if \<bar>r\<bar> < 10 ^ (p - 2) then Some r else None)"

definition nullable_decimal_column :: "nat \<Rightarrow> rat option \<Rightarrow> rat option option" where
  "nullable_decimal_column p x =
     (case x of None \<Rightarrow> Some None | Some v \<Rightarrow> map_option Some (decimal_column p v))"

definition integer_column :: "int \<Rightarrow> int option" where
  "integer_column i = (if - (2 ^ 31) \<le> i \<and> i < 2 ^ 31 then Some i else None)"

text \<open>
  The row proposed for insertion (\<^verbatim>\<open>EXCLUDED\<close>), if every value fits its column and the
  checks hold. \<open>newId\<close> is the value the statement draws from the sequence of the
  \<^verbatim>\<open>SERIAL\<close> column, \<open>now\<close> is \<^verbatim>\<open>NOW()\<close>.
\<close>

definition excluded_row ::
  "(string \<Rightarrow> utc_date option) \<Rightarrow> nat \<Rightarrow> nat \<Rightarrow> weather_params \<Rightarrow> weather_row option" where
  "excluded_row dateInput now newId params =
     (let prov = varchar_column 100 (p_province params);
          d = dateInput (p_date params);
          tmax = decimal_column 5 (tempMax params);
          tmin = decimal_column 5 (tempMin params);
          tavg = decimal_column 5 (tempAvg params);
          prec = decimal_column 8 (p_precipitation params);
          hum = nullable_decimal_column 5 (p_humidity params);
          y = integer_column (p_year params);
          m = integer_column (p_month params);
          dd = integer_column (p_day params)
      in if prov \<noteq> None \<and> d \<noteq> None \<and> tmax \<noteq> None \<and> tmin \<noteq> None \<and> tavg \<noteq> None
            \<and> prec \<noteq> None \<and> hum \<noteq> None \<and> y \<noteq> None \<and> m \<noteq> None \<and> dd \<noteq> None
            \<and> the m \<ge> 1 \<and> the m \<le> 12 \<and> the dd \<ge> 1 \<and> the dd \<le> 31
         then Some \<lparr> row_id = newId, row_province = the prov, row_date = the d,
                     temp_max = the tmax, temp_min = the tmin, temp_avg = the tavg,
                     row_precipitation = the prec, row_humidity = the hum,
                     row_source = p_source params,
                     row_year = the y, row_month = the m, row_day = the dd,
                     created_at = now, updated_at = now \<rparr>
         else None)"

text \<open>
  The statement: the proposed row is inserted, or, on a conflict of (province, date), the
  stored row takes every column of the \<^verbatim>\<open>DO UPDATE SET\<close> list from it. The result is the
  row of \<^verbatim>\<open>RETURNING *\<close> and the new table.
\<close>

definition upsertDailyWeatherData ::
  "(string \<Rightarrow> utc_date option) \<Rightarrow> nat \<Rightarrow> nat \<Rightarrow> weather_params \<Rightarrow> weather_table
     \<Rightarrow> db_error + weather_row \<times> weather_table" where
  "upsertDailyWeatherData dateInput now newId params tbl =
     (case excluded_row dateInput now newId params of
        None \<Rightarrow> Inl StatementRejected
      | Some excluded \<Rightarrow>
          (let key = (row_province excluded, row_date excluded);
               r = (case tbl key of
                      None \<Rightarrow> excluded
                    | Some old \<Rightarrow>
                        old \<lparr> temp_max := temp_max excluded, temp_min := temp_min excluded,
                              temp_avg := temp_avg excluded,
                              row_precipitation := row_precipitation excluded,
                              row_humidity := row_humidity excluded,
                              row_source := row_source excluded,
                              row_year := row_year excluded, row_month := row_month excluded,
                              row_day := row_day excluded, updated_at := now \<rparr>)
           in Inr (r, tbl(key \<mapsto> r))))"

section \<open>Auxiliary notions for the statements\<close>

text \<open>The prices of a month that the grouping loop keeps: those above zero, in row order.\<close>

definition valid_prices_of :: "flight_price list \<Rightarrow> nat \<Rightarrow> rat list" where
  "valid_prices_of fps m = map price (filter (\<lambda>fp. month_of fp = m \<and> price fp > 0) fps)"


text \<open>
  The price percentile in the specification's words: the monthly averages are ranked
  across the months present, and the percentile of a month is the percentage of those
  months whose average is at most its own. The months present are those with a price
  above zero.
\<close>

definition month_average :: "flight_price list \<Rightarrow> nat \<Rightarrow> rat" where
  "month_average flightPrices m =
     sum_list (valid_prices_of flightPrices m) / of_nat (length (valid_prices_of flightPrices m))"

definition scored_months :: "flight_price list \<Rightarrow> nat list" where
  "scored_months flightPrices = filter (\<lambda>m. valid_prices_of flightPrices m \<noteq> []) [1..<13]"

definition spec_price_percentile :: "flight_price list \<Rightarrow> nat \<Rightarrow> rat" where
  "spec_price_percentile flightPrices m =
     100 * of_nat (length (filter (\<lambda>k. month_average flightPrices k \<le> month_average flightPrices m)
                             (scored_months flightPrices)))
       / of_nat (length (scored_months flightPrices))"

text \<open>Sample rows for the concrete instances below.\<close>

definition flight_on :: "int \<Rightarrow> nat \<Rightarrow> nat \<Rightarrow> rat \<Rightarrow> flight_price" where
  "flight_on y m d p =
     \<lparr> departure_date = \<lparr> utc_year = y, utc_month = m, utc_day = d \<rparr>, price = p,
       trip_type = RoundTrip, season = Normal, airline_name_th = [], airline_name = ''TG'' \<rparr>"

text \<open>
  Rows of March 2025 and of March 2026 and a row of April 2026 priced 0, with the holiday
  scores stored for their periods.
\<close>

definition two_year_rows :: "flight_price list" where
  "two_year_rows = [flight_on 2025 3 10 1000, flight_on 2026 3 10 1000, flight_on 2026 4 1 0]"

definition two_year_holidays :: "period \<rightharpoonup> rat" where
  "two_year_holidays = [(2025, 3) \<mapsto> 0, (2026, 3) \<mapsto> 100, (2026, 4) \<mapsto> 50]"

text \<open>
  One row in each of three months at the same price, and scores of 50 stored for their
  periods.
\<close>

definition equal_price_flights :: "flight_price list" where
  "equal_price_flights = [flight_on 2026 1 5 1000, flight_on 2026 2 5 1000, flight_on 2026 3 7 1000]"

definition winter_fifty :: "period \<rightharpoonup> rat" where
  "winter_fifty = [(2026, 1) \<mapsto> 50, (2026, 2) \<mapsto> 50, (2026, 3) \<mapsto> 50]"

definition january_only :: "flight_price list" where
  "january_only = [flight_on 2026 1 5 1000]"

section \<open>Further notions for the response, the chart and the weather store\<close>

text \<open>
  The choice of the recommended season in \<^verbatim>\<open>analyzeFlightPrices\<close>
  (\<^verbatim>\<open>seasons.reduce\<close>, on the three seasons) and the two values of
  \<^verbatim>\<open>recommendedPeriod\<close> computed from it.
\<close>

definition best_deal_season :: "season_data list \<Rightarrow> season_data" where
  "best_deal_season seasons =
     foldl (\<lambda>best s. if deal_price (bestDeal s) < deal_price (bestDeal best) then s else best)
       (hd seasons) (tl seasons)"

definition response_price ::
  "flight_price list \<Rightarrow> (period \<rightharpoonup> rat) \<Rightarrow> (period \<rightharpoonup> rat) \<Rightarrow> (period \<rightharpoonup> rat)
     \<Rightarrow> trip_type option \<Rightarrow> passengers \<Rightarrow> int" where
  "response_price flightPrices pricePercentileMap weatherData holidayData tripType pax =
     (let seasons = calculateSeasonsFromFlightPricesWithDemand flightPrices
                      pricePercentileMap weatherData holidayData;
          recommendedPrice = deal_price (bestDeal (best_deal_season seasons))
      in recommendedPeriod_price tripType pax recommendedPrice)"

definition response_savings ::
  "flight_price list \<Rightarrow> (period \<rightharpoonup> rat) \<Rightarrow> (period \<rightharpoonup> rat) \<Rightarrow> (period \<rightharpoonup> rat)
     \<Rightarrow> utc_date option \<Rightarrow> trip_type option \<Rightarrow> passengers \<Rightarrow> int" where
  "response_savings flightPrices pricePercentileMap weatherData holidayData
       userSelectedDate tripType pax =
     (let seasons = calculateSeasonsFromFlightPricesWithDemand flightPrices
                      pricePercentileMap weatherData holidayData;
          recommendedPrice = deal_price (bestDeal (best_deal_season seasons))
      in recommendedPeriod_savings flightPrices userSelectedDate tripType pax seasons
           recommendedPrice)"

text \<open>
  A sequence of upsert statements, each with its time and the sequence value it draws; a
  statement that fails is rolled back and leaves the table as it was.
\<close>

definition upsert_all ::
  "(string \<Rightarrow> utc_date option) \<Rightarrow> (nat \<times> nat \<times> weather_params) list \<Rightarrow> weather_table
     \<Rightarrow> weather_table" where
  "upsert_all dateInput stmts tbl =
     fold (\<lambda>(now, newId, params) t.
             case upsertDailyWeatherData dateInput now newId params t of
               Inr (r, t') \<Rightarrow> t'
             | Inl e \<Rightarrow> t) stmts tbl"

text \<open>
  The ISO form \<^verbatim>\<open>YYYY-MM-DD\<close> of the date input, which is the form the callers pass
  (\<^verbatim>\<open>format(date, 'yyyy-MM-dd')\<close>); the input function of the database reads further
  forms. It serves as the date input in the concrete instances.
\<close>

definition digits_value :: "string \<Rightarrow> nat option" where
  "digits_value cs =
     (if cs \<noteq> [] \<and> list_all (\<lambda>c. 48 \<le> (of_char c :: nat) \<and> (of_char c :: nat) \<le> 57) cs
      then Some (foldl (\<lambda>a c. 10 * a + (of_char c - 48)) 0 cs)
      else None)"

definition iso_date_input :: "string \<Rightarrow> utc_date option" where
  "iso_date_input s =
     (if length s = 10 \<and> s ! 4 = CHR ''-'' \<and> s ! 7 = CHR ''-''
      then (let y = digits_value (take 4 s);
                m = digits_value (take 2 (drop 5 s));
                d = digits_value (drop 8 s)
            in if y \<noteq> None \<and> m \<noteq> None \<and> d \<noteq> None
                  \<and> 1 \<le> the y \<and> 1 \<le> the m \<and> the m \<le> 12
                  \<and> 1 \<le> the d \<and> the d \<le> days_in_month (int (the y)) (the m)
               then Some \<lparr> utc_year = int (the y), utc_month = the m, utc_day = the d \<rparr>
               else None)
      else None)"





definition date_of :: "int \<Rightarrow> nat \<Rightarrow> nat \<Rightarrow> utc_date" where
  "date_of y m d = \<lparr> utc_year = y, utc_month = m, utc_day = d \<rparr>"

definition pax_of :: "nat \<Rightarrow> nat \<Rightarrow> nat \<Rightarrow> passengers" where
  "pax_of a c i = \<lparr> adults = a, children = c, infants = i \<rparr>"

definition weather_on :: "string \<Rightarrow> string \<Rightarrow> weather_source \<Rightarrow> rat \<Rightarrow> weather_params" where
  "weather_on prov d src t =
     \<lparr> p_province = prov, p_date = d, tempMax = t + 2, tempMin = t - 2, tempAvg = t,
       p_precipitation = 0, p_humidity = None, p_source = src,
       p_year = 2026, p_month = 1, p_day = 5 \<rparr>"

definition three_month_flights :: "flight_price list" where
  "three_month_flights = [flight_on 2026 3 5 600, flight_on 2026 4 13 1000, flight_on 2026 5 2 800]"

text \<open>Stored holiday or weather scores of 50 for the three periods of these rows.\<close>

definition stored_fifty :: "period \<rightharpoonup> rat" where
  "stored_fifty = [(2026, 3) \<mapsto> 50, (2026, 4) \<mapsto> 50, (2026, 5) \<mapsto> 50]"


section \<open>The seeded generator\<close>

lemma toInt32_sint: "toInt32 x = sint (word_of_int x :: 32 word)"
  by (simp add: toInt32_def sint_sbintrunc' signed_take_bit_eq_take_bit_shift take_bit_eq_mod)

lemma hash_step_word:
  "hash_step (sint h) c = sint ((push_bit 5 h - h) + of_nat c :: 32 word)"
  by (simp add: hash_step_def toInt32_sint push_bit_eq_mult)

lemma foldl_hash_step_word:
  "foldl hash_step (sint h) seed
     = sint (foldl (\<lambda>h c. (push_bit 5 h - h) + of_nat c) (h :: 32 word) seed)"
proof (induction seed arbitrary: h)
  case Nil
  show ?case by simp
next
  case (Cons c cs)
  have "foldl hash_step (sint h) (c # cs) = foldl hash_step (hash_step (sint h) c) cs"
    by simp
  also have "\<dots> = foldl hash_step (sint ((push_bit 5 h - h) + of_nat c :: 32 word)) cs"
    by (simp only: hash_step_word)
  finally show ?case
    by (simp only: Cons.IH foldl_Cons)
qed

lemma seed_hash_word: "seed_hash seed = sint (rolling_hash32 seed)"
  using foldl_hash_step_word [of 0 seed] by (simp add: seed_hash_def rolling_hash32_def)

text \<open>
  Claim C9. The value returned for a seed is \<open>(|h| mod 10^6) / 10^6\<close>, where \<open>h\<close> is the
  signed reading of the 32-bit rolling hash \<open>h := (h << 5) - h + c\<close> of the seed's
  characters; it lies in [0, 1). The result is a function of the seed alone (the source
  reads nothing else), so equal seeds give equal values in every run.
\<close>

theorem deterministicRandom_rolling_hash:
  "seed_hash seed = sint (rolling_hash32 seed)
   \<and> deterministicRandom seed = of_int (\<bar>sint (rolling_hash32 seed)\<bar> mod 10 ^ 6) / 10 ^ 6
   \<and> 0 \<le> deterministicRandom seed \<and> deterministicRandom seed < 1"
proof -
  let ?n = "\<bar>seed_hash seed\<bar> mod 1000000"
  have n: "0 \<le> ?n" "?n < 1000000" by simp_all
  have lo: "0 \<le> deterministicRandom seed"
    using n(1) by (simp add: deterministicRandom_def)
  have "(of_int ?n :: rat) < of_int 1000000"
    using n(2) by (simp only: of_int_less_iff)
  then have hi: "deterministicRandom seed < 1"
    by (simp add: deterministicRandom_def)
  show ?thesis
    using lo hi by (simp add: seed_hash_word deterministicRandom_def)
qed

theorem deterministicRandom_rolling_hash_witness:
  "deterministicRandom (charCodes ''2026-04'') = 427409 / 1000000
   \<and> sint (rolling_hash32 (charCodes ''2026-04'')) = - 1447427409"
proof -
  have h: "seed_hash (charCodes ''2026-04'') = - 1447427409"
    by (simp add: seed_hash_def charCodes_def hash_step_def toInt32_def)
  show ?thesis
    using deterministicRandom_rolling_hash [of "charCodes ''2026-04''"] h
    by (simp add: deterministicRandom_def)
qed

section \<open>Season scores and classification\<close>


lemma fold_assign_apply:
  "fold (\<lambda>k rec. case body k of None \<Rightarrow> rec | Some v \<Rightarrow> rec(k \<mapsto> v)) ks acc k
     = (if k \<in> set ks then (case body k of None \<Rightarrow> acc k | Some v \<Rightarrow> Some v) else acc k)"
  by (induction ks arbitrary: acc) (auto split: option.splits)

lemma assign_each_apply:
  "assign_each ks body k = (if k \<in> set ks then body k else None)"
  by (simp add: assign_each_def fold_assign_apply split: option.splits)

lemma set_object_keys: "set (object_keys m) = {k. m k \<noteq> None \<and> 1 \<le> k \<and> k \<le> 12}"
  by (auto simp: object_keys_def)

lemma fold_group_step_prices:
  "fst (fold group_step fps acc) m =
     (case fst acc m of
        Some ps \<Rightarrow> Some (ps @ valid_prices_of fps m)
      | None \<Rightarrow> if \<exists>fp \<in> set fps. month_of fp = m then Some (valid_prices_of fps m) else None)"
proof (induction fps arbitrary: acc)
  case Nil
  show ?case by (simp add: valid_prices_of_def split: option.splits)
next
  case (Cons fp fps)
  show ?case
    by (simp add: Cons.IH) (auto simp: group_step_def Let_def valid_prices_of_def split: option.splits)
qed

lemma fold_group_step_periods:
  "fst acc m = None \<longleftrightarrow> snd acc m = None \<Longrightarrow>
   snd (fold group_step fps acc) m =
     (case snd acc m of
        Some p \<Rightarrow> Some p
      | None \<Rightarrow> map_option (\<lambda>fp. period_of (departure_date fp)) (find (\<lambda>fp. month_of fp = m) fps))"
proof (induction fps arbitrary: acc)
  case Nil
  show ?case by (simp split: option.splits)
next
  case (Cons fp fps)
  have inv: "fst (group_step fp acc) m = None \<longleftrightarrow> snd (group_step fp acc) m = None"
    using Cons.prems by (auto simp: group_step_def Let_def)
  show ?case
    using Cons.prems by (simp add: Cons.IH [OF inv]) (auto simp: group_step_def Let_def split: option.splits)
qed

lemma monthPrices_apply:
  "fst (groupByMonth fps) m =
     (if \<exists>fp \<in> set fps. month_of fp = m then Some (valid_prices_of fps m) else None)"
  by (simp add: groupByMonth_def fold_group_step_prices)

lemma monthPeriods_apply:
  "snd (groupByMonth fps) m =
     map_option (\<lambda>fp. period_of (departure_date fp)) (find (\<lambda>fp. month_of fp = m) fps)"
  by (simp add: groupByMonth_def fold_group_step_periods)

lemma valid_prices_positive: "filter (\<lambda>p. p > 0) (valid_prices_of fps m) = valid_prices_of fps m"
  by (simp add: valid_prices_of_def filter_map comp_def)

lemma valid_prices_exists:
  "valid_prices_of fps m \<noteq> [] \<Longrightarrow> \<exists>fp \<in> set fps. month_of fp = m"
  by (auto simp: valid_prices_of_def filter_empty_conv)

lemma monthAvgPrices_apply:
  "monthAvgPrices (fst (groupByMonth fps)) m =
     (if 1 \<le> m \<and> m \<le> 12 \<and> valid_prices_of fps m \<noteq> []
      then Some (sum_list (valid_prices_of fps m) / of_nat (length (valid_prices_of fps m)))
      else None)"
  using valid_prices_exists [of fps m]
  by (auto simp: monthAvgPrices_def assign_each_apply set_object_keys monthPrices_apply
        valid_prices_positive Let_def)

lemma monthSeasonScores_apply:
  "monthSeasonScores A P ppm wd hdm m =
     (if m \<in> set (object_keys A)
      then Some (seasonScore
        (case ppm (the (P m)) of
           Some pp \<Rightarrow> pp
         | None \<Rightarrow> fallbackPercentile (sort (object_values A)) (the (A m)))
        (case hdm (the (P m)) of Some h \<Rightarrow> h | None \<Rightarrow> 50)
        (case wd (the (P m)) of Some w \<Rightarrow> w | None \<Rightarrow> 50))
      else None)"
  by (simp add: monthSeasonScores_def assign_each_apply Let_def)

lemma avg_keys:
  "m \<in> set (object_keys (monthAvgPrices (fst (groupByMonth fps))))
     \<longleftrightarrow> 1 \<le> m \<and> m \<le> 12 \<and> valid_prices_of fps m \<noteq> []"
  by (simp add: set_object_keys monthAvgPrices_apply)

lemma scores_keys:
  "set (object_keys (monthSeasonScores A P ppm wd hdm)) = set (object_keys A)"
  by (auto simp: set_object_keys monthSeasonScores_apply)

lemma fallbackPercentile_range:
  "0 \<le> fallbackPercentile xs a \<and> fallbackPercentile xs a \<le> 100"
proof -
  define q :: rat where
    "q = of_nat (length (filter (\<lambda>p. p \<le> a) xs)) / of_nat (length xs)"
  have "length (filter (\<lambda>p. p \<le> a) xs) \<le> length xs" by simp
  then have "(of_nat (length (filter (\<lambda>p. p \<le> a) xs)) :: rat) \<le> of_nat (length xs)"
    by (simp only: of_nat_le_iff)
  then have q1: "q \<le> 1"
    unfolding q_def by (cases "length xs = 0") (simp_all add: divide_le_eq)
  have q0: "0 \<le> q" by (simp add: q_def)
  have "fallbackPercentile xs a = q * 100"
    by (simp only: fallbackPercentile_def q_def)
  then show ?thesis using q0 q1 by simp
qed

lemma seasonScore_range:
  "0 \<le> pp \<Longrightarrow> pp \<le> 100 \<Longrightarrow> 0 \<le> hs \<Longrightarrow> hs \<le> 100 \<Longrightarrow> 0 \<le> ws \<Longrightarrow> ws \<le> 100 \<Longrightarrow>
   0 \<le> seasonScore pp hs ws \<and> seasonScore pp hs ws \<le> 100"
  by (simp add: seasonScore_def)

lemma percentile_index:
  fixes p :: rat
  assumes "xs \<noteq> []" "0 < p" "p \<le> 100"
  shows "nat (max 0 (\<lceil>(p / 100) * of_nat (length xs)\<rceil> - 1)) < length xs"
    and "int (nat (max 0 (\<lceil>(p / 100) * of_nat (length xs)\<rceil> - 1)))
           = \<lceil>(p / 100) * of_nat (length xs)\<rceil> - 1"
proof -
  define c where "c = \<lceil>(p / 100) * of_nat (length xs)\<rceil>"
  have n: "0 < length xs" using assms(1) by simp
  have "0 < (p / 100) * of_nat (length xs)" using assms(2) n by simp
  then have c1: "1 \<le> c"
    unfolding c_def using zero_less_ceiling [of "(p / 100) * of_nat (length xs)"] by linarith
  have "p / 100 \<le> 1" using assms(3) by simp
  then have "(p / 100) * of_nat (length xs) \<le> 1 * of_nat (length xs)"
    by (rule mult_right_mono) simp
  then have "(p / 100) * of_nat (length xs) \<le> of_int (int (length xs))" by simp
  then have c2: "c \<le> int (length xs)"
    unfolding c_def by (simp only: ceiling_le_iff)
  show "nat (max 0 (\<lceil>(p / 100) * of_nat (length xs)\<rceil> - 1)) < length xs"
    unfolding c_def [symmetric] using c1 c2 by linarith
  show "int (nat (max 0 (\<lceil>(p / 100) * of_nat (length xs)\<rceil> - 1)))
           = \<lceil>(p / 100) * of_nat (length xs)\<rceil> - 1"
    unfolding c_def [symmetric] using c1 by linarith
qed

lemma percentile_Some:
  assumes "xs \<noteq> []" "0 < p" "p \<le> 100"
  shows "percentile xs p = Some (xs ! nat (max 0 (\<lceil>(p / 100) * of_nat (length xs)\<rceil> - 1)))"
  using percentile_index(1) [OF assms] assms(1) by (simp add: percentile_def Let_def)

lemma monthSeasonMap_apply:
  "monthSeasonMap scores k =
     (if k \<in> set (object_keys scores)
      then Some (classify (the (scores k))
                   (percentile (sort (object_values scores)) 33)
                   (percentile (sort (object_values scores)) 67))
      else None)"
  by (simp add: monthSeasonMap_def assign_each_apply Let_def)



lemma lookup_default_range:
  fixes m :: "'k \<rightharpoonup> rat"
  assumes "\<forall>p v. m p = Some v \<longrightarrow> 0 \<le> v \<and> v \<le> 100" and "0 \<le> d \<and> d \<le> 100"
  shows "0 \<le> (case m k of Some v \<Rightarrow> v | None \<Rightarrow> d)
       \<and> (case m k of Some v \<Rightarrow> v | None \<Rightarrow> d) \<le> 100"
  using assms by (cases "m k") auto

lemma avg_object_keys:
  "object_keys (monthAvgPrices (fst (groupByMonth fps))) = scored_months fps"
  unfolding object_keys_def scored_months_def
  by (rule filter_cong) (auto simp: monthAvgPrices_apply)

lemma avg_object_values:
  "object_values (monthAvgPrices (fst (groupByMonth fps)))
     = map (month_average fps) (scored_months fps)"
  unfolding object_values_def avg_object_keys
  by (rule map_cong) (auto simp: monthAvgPrices_apply scored_months_def month_average_def)

lemma fallbackPercentile_sort:
  "fallbackPercentile (sort xs) a
     = 100 * of_nat (length (filter (\<lambda>p. p \<le> a) xs)) / of_nat (length xs)"
proof -
  have "length (filter (\<lambda>p. p \<le> a) (sort xs)) = length (filter (\<lambda>p. p \<le> a) xs)"
    by (simp add: filter_sort)
  then show ?thesis by (simp add: fallbackPercentile_def)
qed

lemma fallbackPercentile_spec:
  "fallbackPercentile (sort (object_values (monthAvgPrices (fst (groupByMonth fps)))))
       (month_average fps m)
     = spec_price_percentile fps m"
  by (simp add: fallbackPercentile_sort avg_object_values spec_price_percentile_def
        filter_map comp_def)

lemma no_valid_price_no_score:
  "valid_prices_of fps k = [] \<Longrightarrow> scores_of fps ppm wd hdm k = None"
  by (simp add: scores_of_def monthSeasonScores_apply avg_keys)

text \<open>
  Rows of March 2025 and of March 2026, with holiday scores 0 and 100 stored for the two
  periods, and a row of April 2026 priced 0. Month 3 has the one score 65, computed with
  the holiday score of the first loaded row's period, 2025-03; with the score 100 of
  2026-03 the formula gives 95. April has rows and no score.
\<close>

theorem period_score_counterexample:
  "map (\<lambda>fp. period_of (departure_date fp)) two_year_rows = [(2025, 3), (2026, 3), (2026, 4)]
   \<and> two_year_holidays (2026, 3) = Some 100
   \<and> scores_of two_year_rows Map.empty Map.empty two_year_holidays 3 = Some 65
   \<and> (6 / 10 * 100 + 3 / 10 * 100 + 1 / 10 * 50 :: rat) = 95
   \<and> scores_of two_year_rows Map.empty Map.empty two_year_holidays 4 = None"
  by code_simp

text \<open>
  Claim C1, as amended. The season score is kept per month number 1..12, so rows of the
  same month in different years share one score. For every month that has a flight row
  priced above zero, that score is
  \<open>0.60 * price_percentile + 0.30 * holiday_score + 0.10 * weather_score\<close>, where the three
  operands are those of the period of the first loaded row of the month: the price
  percentile is the one stored for that period or else 100 times the number of scored
  months whose average price is at most this month's, divided by the number of scored
  months; the holiday and weather scores are the ones given for that period, 50 when there
  is none. With the given scores in [0, 100], each operand and the season score lie in
  [0, 100]. A month none of whose rows is priced above zero has no score. The equality is
  one of exact arithmetic; the code evaluates the same expression in doubles.
\<close>

theorem season_score_weighted_sum:
  assumes "fp \<in> set flightPrices" and "price fp > 0"
    and "1 \<le> month_of fp" and "month_of fp \<le> 12"
    and "\<forall>p v. pricePercentileMap p = Some v \<longrightarrow> 0 \<le> v \<and> v \<le> 100"
    and "\<forall>p v. holidayData p = Some v \<longrightarrow> 0 \<le> v \<and> v \<le> 100"
    and "\<forall>p v. weatherData p = Some v \<longrightarrow> 0 \<le> v \<and> v \<le> 100"
  shows "\<exists>first period pp hs ws.
      find (\<lambda>f. month_of f = month_of fp) flightPrices = Some first
    \<and> period = period_of (departure_date first)
    \<and> pp = (case pricePercentileMap period of
               Some v \<Rightarrow> v
             | None \<Rightarrow> spec_price_percentile flightPrices (month_of fp))
    \<and> hs = (case holidayData period of Some v \<Rightarrow> v | None \<Rightarrow> 50)
    \<and> ws = (case weatherData period of Some v \<Rightarrow> v | None \<Rightarrow> 50)
    \<and> scores_of flightPrices pricePercentileMap weatherData holidayData (month_of fp)
          = Some (6 / 10 * pp + 3 / 10 * hs + 1 / 10 * ws)
    \<and> 0 \<le> pp \<and> pp \<le> 100 \<and> 0 \<le> hs \<and> hs \<le> 100 \<and> 0 \<le> ws \<and> ws \<le> 100
    \<and> 0 \<le> 6 / 10 * pp + 3 / 10 * hs + 1 / 10 * ws
    \<and> 6 / 10 * pp + 3 / 10 * hs + 1 / 10 * ws \<le> 100
    \<and> (\<forall>k. valid_prices_of flightPrices k = []
           \<longrightarrow> scores_of flightPrices pricePercentileMap weatherData holidayData k = None)"
proof -
  let ?m = "month_of fp"
  let ?A = "monthAvgPrices (fst (groupByMonth flightPrices))"
  obtain first where first: "find (\<lambda>f. month_of f = ?m) flightPrices = Some first"
    using assms(1) by (cases "find (\<lambda>f. month_of f = ?m) flightPrices") (auto simp: find_None_iff)
  define period where "period = period_of (departure_date first)"
  define pp where "pp = (case pricePercentileMap period of
               Some v \<Rightarrow> v
             | None \<Rightarrow> spec_price_percentile flightPrices ?m)"
  define hs where "hs = (case holidayData period of Some v \<Rightarrow> v | None \<Rightarrow> 50)"
  define ws where "ws = (case weatherData period of Some v \<Rightarrow> v | None \<Rightarrow> 50)"
  have valid: "valid_prices_of flightPrices ?m \<noteq> []"
    using assms(1,2) by (auto simp: valid_prices_of_def filter_empty_conv)
  have key: "?m \<in> set (object_keys ?A)"
    using valid assms(3,4) by (simp add: avg_keys)
  have avg: "?A ?m = Some (month_average flightPrices ?m)"
    using valid assms(3,4) by (simp add: monthAvgPrices_apply month_average_def)
  have per: "the (snd (groupByMonth flightPrices) ?m) = period"
    by (simp add: monthPeriods_apply first period_def)
  have fb: "fallbackPercentile (sort (object_values ?A)) (the (?A ?m))
              = spec_price_percentile flightPrices ?m"
    by (simp add: avg fallbackPercentile_spec)
  have score: "scores_of flightPrices pricePercentileMap weatherData holidayData ?m
                 = Some (seasonScore pp hs ws)"
    unfolding scores_of_def monthSeasonScores_apply
    using key by (simp add: per fb pp_def hs_def ws_def cong: option.case_cong)
  have "0 \<le> spec_price_percentile flightPrices ?m \<and> spec_price_percentile flightPrices ?m \<le> 100"
    using fallbackPercentile_range [of "sort (object_values ?A)" "the (?A ?m)"]
    by (simp only: fb)
  then have pp: "0 \<le> pp \<and> pp \<le> 100"
    unfolding pp_def by (rule lookup_default_range [OF assms(5)])
  have hs: "0 \<le> hs \<and> hs \<le> 100"
    unfolding hs_def by (rule lookup_default_range [OF assms(6)]) simp
  have ws: "0 \<le> ws \<and> ws \<le> 100"
    unfolding ws_def by (rule lookup_default_range [OF assms(7)]) simp
  have rng: "0 \<le> seasonScore pp hs ws \<and> seasonScore pp hs ws \<le> 100"
    using pp hs ws by (intro seasonScore_range) simp_all
  have form: "seasonScore pp hs ws = 6 / 10 * pp + 3 / 10 * hs + 1 / 10 * ws"
    by (simp add: seasonScore_def)
  have none: "\<forall>k. valid_prices_of flightPrices k = []
           \<longrightarrow> scores_of flightPrices pricePercentileMap weatherData holidayData k = None"
    by (simp add: no_valid_price_no_score)
  show ?thesis
    using first period_def pp_def hs_def ws_def score pp hs ws rng none unfolding form
    by blast
qed

text \<open>
  Claim C10. With no flight rows at all, the season calculation returns three entries in
  the order low, normal, high, each with no months, a price range of 0 to 0 and the best
  deal with empty dates, price 0 and empty airline.
\<close>

theorem empty_window_seasons:
  "calculateSeasonsFromFlightPricesWithDemand [] pricePercentileMap weatherData holidayData =
     [ \<lparr> season_type = Low, months = [],
         priceRange = \<lparr> range_min = 0, range_max = 0 \<rparr>,
         bestDeal = \<lparr> dates = NoDates, deal_price = 0, airline = [] \<rparr> \<rparr>,
       \<lparr> season_type = Normal, months = [],
         priceRange = \<lparr> range_min = 0, range_max = 0 \<rparr>,
         bestDeal = \<lparr> dates = NoDates, deal_price = 0, airline = [] \<rparr> \<rparr>,
       \<lparr> season_type = High, months = [],
         priceRange = \<lparr> range_min = 0, range_max = 0 \<rparr>,
         bestDeal = \<lparr> dates = NoDates, deal_price = 0, airline = [] \<rparr> \<rparr> ]"
  by (simp add: calculateSeasonsFromFlightPricesWithDemand_def getEmptySeasons_def empty_season_def)

theorem season_score_weighted_sum_witness:
  "scores_of two_year_rows Map.empty Map.empty two_year_holidays 3 = Some 65
   \<and> spec_price_percentile two_year_rows 3 = 100
   \<and> (\<exists>pp hs ws. (65 :: rat) = 6 / 10 * pp + 3 / 10 * hs + 1 / 10 * ws
        \<and> pp = 100 \<and> hs = 0 \<and> ws = 50)
   \<and> scores_of two_year_rows Map.empty Map.empty two_year_holidays 4 = None"
proof -
  let ?fp = "flight_on 2026 3 10 1000"
  let ?first = "flight_on 2025 3 10 1000"
  have ev: "scores_of two_year_rows Map.empty Map.empty two_year_holidays 3 = Some 65"
    by code_simp
  have sp: "spec_price_percentile two_year_rows 3 = 100"
    by code_simp
  have f: "find (\<lambda>f. month_of f = month_of ?fp) two_year_rows = Some ?first"
    by (simp add: two_year_rows_def flight_on_def month_of_def)
  have m: "month_of ?fp = 3" by (simp add: flight_on_def month_of_def)
  have per: "period_of (departure_date ?first) = (2025, 3)"
    by (simp add: flight_on_def period_of_def)
  have h1: "?fp \<in> set two_year_rows" by (simp add: two_year_rows_def)
  have h2: "price ?fp > 0" by (simp add: flight_on_def)
  have h3: "1 \<le> month_of ?fp" "month_of ?fp \<le> 12" by (simp_all add: m)
  have h5: "\<forall>p v. (Map.empty :: period \<rightharpoonup> rat) p = Some v \<longrightarrow> 0 \<le> v \<and> v \<le> 100" by simp
  have h6: "\<forall>p v. two_year_holidays p = Some v \<longrightarrow> 0 \<le> v \<and> v \<le> 100"
    by (simp add: two_year_holidays_def)
  have v4: "valid_prices_of two_year_rows 4 = []"
    by (simp add: valid_prices_of_def two_year_rows_def flight_on_def month_of_def)
  from season_score_weighted_sum [OF h1 h2 h3 h5 h6 h5]
  obtain first period pp hs ws where
    w: "find (\<lambda>f. month_of f = month_of ?fp) two_year_rows = Some first"
       "period = period_of (departure_date first)"
       "pp = (case (Map.empty :: period \<rightharpoonup> rat) period of
                Some v \<Rightarrow> v | None \<Rightarrow> spec_price_percentile two_year_rows (month_of ?fp))"
       "hs = (case two_year_holidays period of Some v \<Rightarrow> v | None \<Rightarrow> 50)"
       "ws = (case (Map.empty :: period \<rightharpoonup> rat) period of Some v \<Rightarrow> v | None \<Rightarrow> 50)"
       "scores_of two_year_rows Map.empty Map.empty two_year_holidays (month_of ?fp)
          = Some (6 / 10 * pp + 3 / 10 * hs + 1 / 10 * ws)"
       "\<forall>k. valid_prices_of two_year_rows k = []
           \<longrightarrow> scores_of two_year_rows Map.empty Map.empty two_year_holidays k = None"
    by blast
  have "first = ?first" using w(1) f by simp
  then have p: "period = (2025, 3)" using w(2) per by simp
  have pp: "pp = 100" using w(3) sp by (simp add: m)
  have hs: "hs = 0" using w(4) p by (simp add: two_year_holidays_def)
  have ws: "ws = 50" using w(5) by simp
  have eq: "(65 :: rat) = 6 / 10 * pp + 3 / 10 * hs + 1 / 10 * ws"
    using w(6) ev by (simp only: m option.inject)
  have none: "scores_of two_year_rows Map.empty Map.empty two_year_holidays 4 = None"
    using w(7) v4 by blast
  show ?thesis using ev sp eq pp hs ws none by blast
qed

theorem empty_window_seasons_witness:
  "map season_type (calculateSeasonsFromFlightPricesWithDemand [] Map.empty Map.empty Map.empty)
     = [Low, Normal, High]
   \<and> map months (calculateSeasonsFromFlightPricesWithDemand [] Map.empty Map.empty Map.empty)
     = [[], [], []]"
  by (simp add: empty_window_seasons [of Map.empty Map.empty Map.empty])


section \<open>Three scored months, ties, and months without rows\<close>


lemma percentile_three:
  assumes "length xs = 3"
  shows "percentile xs 33 = Some (xs ! 0)" and "percentile xs 67 = Some (xs ! 2)"
proof -
  have "\<lceil>(33 / 100 :: rat) * 3\<rceil> = 1" by (simp add: ceiling_eq_iff)
  then show "percentile xs 33 = Some (xs ! 0)"
    using assms by (simp add: percentile_def Let_def)
  have "\<lceil>(67 / 100 :: rat) * 3\<rceil> = 3" by (simp add: ceiling_eq_iff)
  then show "percentile xs 67 = Some (xs ! 2)"
    using assms by (simp add: percentile_def Let_def)
qed

lemma three_distinct_classes:
  fixes a b c :: rat
  assumes "distinct [a, b, c]"
  shows "mset (map (\<lambda>s. classify s (Some (sort [a, b, c] ! 0)) (Some (sort [a, b, c] ! 2))) [a, b, c])
           = {#Low, Normal, High#}"
  using assms by (auto simp: classify_def)

lemma three_months_one_each:
  assumes keys: "object_keys scores = [k1, k2, k3]"
    and dist: "distinct [the (scores k1), the (scores k2), the (scores k3)]"
  shows "mset (map (\<lambda>k. the (monthSeasonMap scores k)) [k1, k2, k3]) = {#Low, Normal, High#}"
proof -
  let ?a = "the (scores k1)" and ?b = "the (scores k2)" and ?c = "the (scores k3)"
  have vals: "object_values scores = [?a, ?b, ?c]"
    by (simp add: object_values_def keys)
  have len: "length (sort (object_values scores)) = 3" by (simp add: vals)
  have p33: "percentile (sort (object_values scores)) 33 = Some (sort [?a, ?b, ?c] ! 0)"
    using percentile_three(1) [OF len] by (simp only: vals)
  have p67: "percentile (sort (object_values scores)) 67 = Some (sort [?a, ?b, ?c] ! 2)"
    using percentile_three(2) [OF len] by (simp only: vals)
  have "map (\<lambda>k. the (monthSeasonMap scores k)) [k1, k2, k3]
          = map (\<lambda>s. classify s (Some (sort [?a, ?b, ?c] ! 0)) (Some (sort [?a, ?b, ?c] ! 2)))
              [?a, ?b, ?c]"
    by (simp add: monthSeasonMap_apply keys p33 p67)
  then show ?thesis
    using three_distinct_classes [OF dist] by (simp only:)
qed

lemma sorted_values_nonempty:
  assumes "k \<in> set (object_keys S)"
  shows "sort (object_values S) \<noteq> []"
proof -
  have "0 < length (object_keys S)" using assms by (rule length_pos_if_in_set)
  then have "0 < length (sort (object_values S))" by (simp add: object_values_def)
  then show ?thesis by (metis length_greater_0_conv)
qed

lemma equal_scores_all_low:
  assumes eq: "\<forall>k \<in> set (object_keys scores). the (scores k) = c"
    and k: "k \<in> set (object_keys scores)"
  shows "monthSeasonMap scores k = Some Low"
proof -
  let ?all = "sort (object_values scores)"
  have ne: "?all \<noteq> []" using k by (rule sorted_values_nonempty)
  have sub: "set ?all \<subseteq> {c}" using eq by (auto simp: object_values_def)
  have "?all ! nat (max 0 (\<lceil>(33 / 100 :: rat) * of_nat (length ?all)\<rceil> - 1)) \<in> set ?all"
    using percentile_index(1) [OF ne, of 33] by (intro nth_mem) simp
  then have "percentile ?all 33 = Some c"
    using percentile_Some [OF ne, of 33] sub by auto
  then show ?thesis
    using k eq by (simp add: monthSeasonMap_apply classify_def)
qed

lemma tie_is_low:
  assumes "k \<in> set (object_keys scores)"
    and "percentile (sort (object_values scores)) 33 = Some (the (scores k))"
  shows "monthSeasonMap scores k = Some Low"
  using assms by (simp add: monthSeasonMap_apply classify_def)

lemma divisors_nonzero:
  assumes "scores_of fps ppm wd hdm m \<noteq> None"
  shows "length (valid_prices_of fps m) \<noteq> 0"
    and "length (sort (object_values (monthAvgPrices (fst (groupByMonth fps))))) \<noteq> 0"
proof -
  have key: "m \<in> set (object_keys (monthAvgPrices (fst (groupByMonth fps))))"
    using assms by (auto simp: scores_of_def monthSeasonScores_apply split: if_splits)
  then show "length (valid_prices_of fps m) \<noteq> 0" by (simp add: avg_keys)
  show "length (sort (object_values (monthAvgPrices (fst (groupByMonth fps))))) \<noteq> 0"
    using sorted_values_nonempty [OF key] by (metis length_0_conv)
qed

text \<open>
  Three months with one row each at the same price, and the same holiday and weather
  scores stored for the three periods: the three season scores are equal, 80 each, and the
  three months are Low; Normal lists only the nine months without rows and High is empty.
\<close>

theorem three_equal_scores_all_low_counterexample:
  "map (scores_of equal_price_flights Map.empty winter_fifty winter_fifty) [1, 2, 3]
     = [Some 80, Some 80, Some 80]
   \<and> map (monthSeasonMap (scores_of equal_price_flights Map.empty winter_fifty winter_fifty))
         [1, 2, 3]
     = [Some Low, Some Low, Some Low]
   \<and> map months (calculateSeasonsFromFlightPricesWithDemand equal_price_flights
                     Map.empty winter_fifty winter_fifty)
     = [[1, 2, 3], [4, 5, 6, 7, 8, 9, 10, 11, 12], []]"
  by code_simp

text \<open>
  Claim C3, as amended. When exactly three months have season scores and the three scores
  are pairwise distinct, one month is Low, one Normal and one High. A month whose score
  equals both thresholds is Low, because the Low test comes first; when all season scores
  are equal, every scored month is Low. Whenever a score is computed, the two divisors of
  the computation (the number of valid prices of the month and the number of monthly
  averages) are not zero. The first three parts are about any map of scores, so they hold
  of the scores as the code computes them.
\<close>

theorem tercile_three_months:
  "(object_keys scores = [k1, k2, k3]
      \<and> distinct [the (scores k1), the (scores k2), the (scores k3)]
    \<longrightarrow> mset (map (\<lambda>k. the (monthSeasonMap scores k)) [k1, k2, k3]) = {#Low, Normal, High#})
   \<and> (k \<in> set (object_keys scores)
      \<and> percentile (sort (object_values scores)) 33 = Some (the (scores k))
      \<and> percentile (sort (object_values scores)) 67 = Some (the (scores k))
    \<longrightarrow> monthSeasonMap scores k = Some Low)
   \<and> ((\<forall>j \<in> set (object_keys scores). the (scores j) = c)
    \<longrightarrow> (\<forall>j \<in> set (object_keys scores). monthSeasonMap scores j = Some Low))
   \<and> (scores_of flightPrices pricePercentileMap weatherData holidayData m \<noteq> None
    \<longrightarrow> length (valid_prices_of flightPrices m) \<noteq> 0
      \<and> length (sort (object_values (monthAvgPrices (fst (groupByMonth flightPrices))))) \<noteq> 0)"
  using three_months_one_each [of scores k1 k2 k3] tie_is_low [of k scores]
    equal_scores_all_low [of scores c]
    divisors_nonzero [of flightPrices pricePercentileMap weatherData holidayData m]
  by blast

theorem tercile_three_months_witness:
  "object_keys [1 \<mapsto> 40 :: rat, 2 \<mapsto> 89, 3 \<mapsto> 70] = [1, 2, 3]
   \<and> mset (map (\<lambda>k. the (monthSeasonMap [1 \<mapsto> 40 :: rat, 2 \<mapsto> 89, 3 \<mapsto> 70] k)) [1, 2, 3])
        = {#Low, Normal, High#}
   \<and> monthSeasonMap [1 \<mapsto> 80 :: rat, 2 \<mapsto> 80, 3 \<mapsto> 80] 2 = Some Low"
proof -
  let ?S = "[1 :: nat \<mapsto> 40 :: rat, 2 \<mapsto> 89, 3 \<mapsto> 70]"
  let ?E = "[1 :: nat \<mapsto> 80 :: rat, 2 \<mapsto> 80, 3 \<mapsto> 80]"
  have keys: "object_keys ?S = [1, 2, 3]" by code_simp
  have dist: "distinct [the (?S 1), the (?S 2), the (?S 3)]" by simp
  have one_each: "mset (map (\<lambda>k. the (monthSeasonMap ?S k)) [1, 2, 3]) = {#Low, Normal, High#}"
    using tercile_three_months [of ?S 1 2 3] keys dist by blast
  have keysE: "object_keys ?E = [1, 2, 3]" by code_simp
  have eq: "\<forall>j \<in> set (object_keys ?E). the (?E j) = 80"
    unfolding keysE by simp
  have "\<forall>j \<in> set (object_keys ?E). monthSeasonMap ?E j = Some Low"
    using tercile_three_months [of ?E _ _ _ _ 80] eq by blast
  then have low: "monthSeasonMap ?E 2 = Some Low"
    unfolding keysE by simp
  show ?thesis using keys one_each low by blast
qed

lemma set_seasonMonths:
  "set (seasonMonths msm s) = {i. 1 \<le> i \<and> i \<le> 12 \<and> season_or_normal msm i = s}"
  by (auto simp: seasonMonths_def)

text \<open>
  Claim C4, as amended. A month of the year without flight rows receives no season score
  and no entry in the month-to-season map. In the output it is nevertheless listed, by the
  default \<^verbatim>\<open>|| 'normal'\<close>, among the months of the Normal season, and of no other, whenever
  some month has a valid price; otherwise all three month lists are empty.
\<close>

theorem month_without_rows:
  assumes "1 \<le> m" and "m \<le> 12" and "\<forall>fp \<in> set flightPrices. month_of fp \<noteq> m"
  shows "scores_of flightPrices pricePercentileMap weatherData holidayData m = None
    \<and> monthSeasonMap (scores_of flightPrices pricePercentileMap weatherData holidayData) m = None
    \<and> (length (object_values (monthAvgPrices (fst (groupByMonth flightPrices)))) = 0
         \<longrightarrow> calculateSeasonsFromFlightPricesWithDemand flightPrices
               pricePercentileMap weatherData holidayData = getEmptySeasons)
    \<and> (length (object_values (monthAvgPrices (fst (groupByMonth flightPrices)))) \<noteq> 0
         \<longrightarrow> (\<exists>lo no hi.
               calculateSeasonsFromFlightPricesWithDemand flightPrices
                 pricePercentileMap weatherData holidayData = [lo, no, hi]
             \<and> season_type lo = Low \<and> season_type no = Normal \<and> season_type hi = High
             \<and> m \<notin> set (months lo) \<and> m \<in> set (months no) \<and> m \<notin> set (months hi)))"
proof -
  let ?sc = "scores_of flightPrices pricePercentileMap weatherData holidayData"
  have novalid: "valid_prices_of flightPrices m = []"
    using assms(3) by (auto simp: valid_prices_of_def filter_empty_conv)
  have nokey: "m \<notin> set (object_keys (monthAvgPrices (fst (groupByMonth flightPrices))))"
    by (simp add: avg_keys novalid)
  have score: "?sc m = None"
    using nokey by (simp add: scores_of_def monthSeasonScores_apply)
  have cls: "monthSeasonMap ?sc m = None"
    using score by (simp add: monthSeasonMap_apply set_object_keys)
  have normal: "season_or_normal (monthSeasonMap ?sc) m = Normal"
    by (simp add: season_or_normal_def cls)
  have empty: "length (object_values (monthAvgPrices (fst (groupByMonth flightPrices)))) = 0
      \<longrightarrow> calculateSeasonsFromFlightPricesWithDemand flightPrices
               pricePercentileMap weatherData holidayData = getEmptySeasons"
    by (simp add: calculateSeasonsFromFlightPricesWithDemand_def)
  have full: "length (object_values (monthAvgPrices (fst (groupByMonth flightPrices)))) \<noteq> 0
      \<longrightarrow> calculateSeasonsFromFlightPricesWithDemand flightPrices
               pricePercentileMap weatherData holidayData
            = [build_season flightPrices (monthSeasonMap ?sc) Low,
               build_season flightPrices (monthSeasonMap ?sc) Normal,
               build_season flightPrices (monthSeasonMap ?sc) High]"
    by (auto simp: calculateSeasonsFromFlightPricesWithDemand_def Let_def object_values_def
          monthAvgPrices_def assign_each_def object_keys_def groupByMonth_def)
  have mem: "m \<notin> set (months (build_season flightPrices (monthSeasonMap ?sc) Low))"
       "m \<in> set (months (build_season flightPrices (monthSeasonMap ?sc) Normal))"
       "m \<notin> set (months (build_season flightPrices (monthSeasonMap ?sc) High))"
    using assms(1,2) normal by (simp_all add: build_season_def set_seasonMonths)
  have types: "season_type (build_season flightPrices (monthSeasonMap ?sc) Low) = Low"
       "season_type (build_season flightPrices (monthSeasonMap ?sc) Normal) = Normal"
       "season_type (build_season flightPrices (monthSeasonMap ?sc) High) = High"
    by (simp_all add: build_season_def)
  show ?thesis
    using score cls empty full mem types by blast
qed

text \<open>
  With rows in January only, February has no row and is listed in the Normal season.
\<close>

theorem month_without_rows_counterexample:
  "filter (\<lambda>fp. month_of fp = 2) january_only = []
   \<and> season_type (calculateSeasonsFromFlightPricesWithDemand january_only
                     Map.empty Map.empty Map.empty ! 1) = Normal
   \<and> 2 \<in> set (months (calculateSeasonsFromFlightPricesWithDemand january_only
                     Map.empty Map.empty Map.empty ! 1))"
  by code_simp

theorem month_without_rows_witness:
  "scores_of january_only Map.empty Map.empty Map.empty 2 = None
   \<and> map months (calculateSeasonsFromFlightPricesWithDemand january_only
                     Map.empty Map.empty Map.empty)
        = [[1], [2, 3, 4, 5, 6, 7, 8, 9, 10, 11, 12], []]"
proof -
  have h: "\<forall>fp \<in> set january_only. month_of fp \<noteq> 2"
    by (simp add: january_only_def flight_on_def month_of_def)
  have ev: "map months (calculateSeasonsFromFlightPricesWithDemand january_only
                     Map.empty Map.empty Map.empty)
        = [[1], [2, 3, 4, 5, 6, 7, 8, 9, 10, 11, 12], []]"
    by code_simp
  show ?thesis
    using month_without_rows [of 2 january_only Map.empty Map.empty Map.empty] h ev by simp
qed


section \<open>The daily weather upsert\<close>

lemma upsert_result:
  assumes "upsertDailyWeatherData dateInput now newId params tbl = Inr (r, tbl')"
  shows "\<exists>excluded.
      excluded_row dateInput now newId params = Some excluded
    \<and> tbl' (row_province excluded, row_date excluded) = Some r
    \<and> row_source r = row_source excluded
    \<and> temp_max r = temp_max excluded \<and> temp_min r = temp_min excluded
    \<and> temp_avg r = temp_avg excluded \<and> row_precipitation r = row_precipitation excluded
    \<and> row_humidity r = row_humidity excluded"
proof (cases "excluded_row dateInput now newId params")
  case None
  then show ?thesis using assms by (simp add: upsertDailyWeatherData_def)
next
  case (Some excluded)
  then show ?thesis
    using assms
    by (cases "tbl (row_province excluded, row_date excluded)")
       (auto simp: upsertDailyWeatherData_def Let_def)
qed

lemma upsert_accepted:
  assumes "excluded_row dateInput now newId params \<noteq> None"
  shows "\<exists>r tbl'. upsertDailyWeatherData dateInput now newId params tbl = Inr (r, tbl')"
  using assms by (auto simp: upsertDailyWeatherData_def Let_def)

lemma excluded_row_fields:
  assumes "excluded_row dateInput now newId params = Some excluded"
  shows "varchar_column 100 (p_province params) = Some (row_province excluded)
    \<and> dateInput (p_date params) = Some (row_date excluded)
    \<and> row_source excluded = p_source params
    \<and> decimal_column 5 (tempMax params) = Some (temp_max excluded)
    \<and> decimal_column 5 (tempMin params) = Some (temp_min excluded)
    \<and> decimal_column 5 (tempAvg params) = Some (temp_avg excluded)
    \<and> decimal_column 8 (p_precipitation params) = Some (row_precipitation excluded)
    \<and> nullable_decimal_column 5 (p_humidity params) = Some (row_humidity excluded)"
  using assms by (auto simp: excluded_row_def Let_def split: if_splits)

text \<open>
  A historical row is stored and a forecast row for the same province and date is upserted
  after it: the stored row is then the forecast one.
\<close>

theorem forecast_replaces_historical_counterexample:
  "map_option row_source
     (upsert_all iso_date_input
        [(100, 1, weather_on ''phuket'' ''2026-01-05'' OpenMeteo 28)] Map.empty
        (''phuket'', date_of 2026 1 5)) = Some OpenMeteo
   \<and> map_option row_source
     (upsert_all iso_date_input
        [(100, 1, weather_on ''phuket'' ''2026-01-05'' OpenMeteo 28),
         (200, 2, weather_on ''phuket'' ''2026-01-05'' OpenWeatherMap 30)] Map.empty
        (''phuket'', date_of 2026 1 5)) = Some OpenWeatherMap"
  by code_simp

text \<open>
  Claim C8, as amended. For every (province, date) pair, an upsert that the table accepts
  leaves under that pair a row with the source and the measurements of the incoming row,
  whatever source the row stored before had: historical displaces forecast on conflict,
  and forecast displaces historical as well.
\<close>

theorem upsert_last_write_wins:
  assumes "upsertDailyWeatherData dateInput now newId params tbl = Inr (r, tbl')"
  shows "\<exists>prov d.
      varchar_column 100 (p_province params) = Some prov
    \<and> dateInput (p_date params) = Some d
    \<and> tbl' (prov, d) = Some r
    \<and> row_source r = p_source params
    \<and> decimal_column 5 (tempMax params) = Some (temp_max r)
    \<and> decimal_column 5 (tempMin params) = Some (temp_min r)
    \<and> decimal_column 5 (tempAvg params) = Some (temp_avg r)
    \<and> decimal_column 8 (p_precipitation params) = Some (row_precipitation r)
    \<and> nullable_decimal_column 5 (p_humidity params) = Some (row_humidity r)"
proof -
  from upsert_result [OF assms] obtain excluded where
    e: "excluded_row dateInput now newId params = Some excluded"
       "tbl' (row_province excluded, row_date excluded) = Some r"
       "row_source r = row_source excluded"
       "temp_max r = temp_max excluded" "temp_min r = temp_min excluded"
       "temp_avg r = temp_avg excluded" "row_precipitation r = row_precipitation excluded"
       "row_humidity r = row_humidity excluded"
    by blast
  show ?thesis
    using excluded_row_fields [OF e(1)] e(2-) by auto
qed

theorem upsert_last_write_wins_witness:
  "\<exists>r tbl'.
      upsertDailyWeatherData iso_date_input 200 2
        (weather_on ''phuket'' ''2026-01-05'' OpenWeatherMap 30)
        (upsert_all iso_date_input
           [(100, 1, weather_on ''phuket'' ''2026-01-05'' OpenMeteo 28)] Map.empty)
        = Inr (r, tbl')
    \<and> tbl' (''phuket'', date_of 2026 1 5) = Some r
    \<and> row_source r = OpenWeatherMap \<and> temp_avg r = 30"
proof -
  let ?p = "weather_on ''phuket'' ''2026-01-05'' OpenWeatherMap 30"
  let ?t = "upsert_all iso_date_input
              [(100, 1, weather_on ''phuket'' ''2026-01-05'' OpenMeteo 28)] Map.empty"
  have ex: "excluded_row iso_date_input 200 2 ?p \<noteq> None"
    by code_simp
  from upsert_accepted [OF ex, of ?t] obtain r tbl' where
    res: "upsertDailyWeatherData iso_date_input 200 2 ?p ?t = Inr (r, tbl')"
    by blast
  have prov: "varchar_column 100 (p_province ?p) = Some ''phuket''"
    by code_simp
  have d: "iso_date_input (p_date ?p) = Some (date_of 2026 1 5)"
    by code_simp
  have src: "p_source ?p = OpenWeatherMap"
    by (simp add: weather_on_def)
  have avg: "decimal_column 5 (tempAvg ?p) = Some 30"
    by code_simp
  from upsert_last_write_wins [OF res] obtain prov' d' where
    w: "varchar_column 100 (p_province ?p) = Some prov'"
       "iso_date_input (p_date ?p) = Some d'"
       "tbl' (prov', d') = Some r"
       "row_source r = p_source ?p"
       "decimal_column 5 (tempAvg ?p) = Some (temp_avg r)"
    by blast
  have "prov' = ''phuket''" using w(1) prov by simp
  moreover have "d' = date_of 2026 1 5" using w(2) d by simp
  moreover have "temp_avg r = 30" using w(5) avg by simp
  ultimately show ?thesis using res w(3,4) src by auto
qed

section \<open>The chart loop\<close>









section \<open>Displayed prices\<close>






section \<open>Savings\<close>

text \<open>
  Claim C7. Savings are the anchor-date price minus the recommended best-deal price, never
  below 0, with the pricing rules applied to both sides. At the following input the code
  does not do this. The user selected 13 April, whose cheapest round-trip row costs 1000;
  the best deal costs 600; two adults travel. The comparison shows the anchor price as
  2000 and the recommended price is shown as 1200, so the savings of the claim are 800.
  The code compares the unscaled anchor price 1000 with the scaled recommended price 1200
  and reports savings of 0; for one adult it reports 400, as the claim says.
\<close>

theorem savings_two_adults:
  "response_savings three_month_flights Map.empty stored_fifty stored_fifty
     (Some (date_of 2026 4 13)) (Some RoundTrip) (pax_of 2 0 0) = 0
   \<and> comparison_basePrice three_month_flights (date_of 2026 4 13) RoundTrip (pax_of 2 0 0)
       = Some 2000
   \<and> response_price three_month_flights Map.empty stored_fifty stored_fifty
       (Some RoundTrip) (pax_of 2 0 0) = 1200
   \<and> response_savings three_month_flights Map.empty stored_fifty stored_fifty
     (Some (date_of 2026 4 13)) (Some RoundTrip) (pax_of 1 0 0) = 400"
  by code_simp

section \<open>The chart of the anchor month\<close>




end
